theory Spec2Isabelle
  imports Main "HOL-Library.Word"
begin

section \<open>Strings, JSON values and promises\<close>

text \<open>
  A JavaScript string is a sequence of UTF-16 code units, so a string of the program is
  a list of 16-bit words. \<open>js\<close> embeds an ASCII literal; code units outside ASCII are
  written as numbers.
\<close>

type_synonym jchar = "16 word"
type_synonym jstring = "jchar list"

definition js :: "string \<Rightarrow> jstring" where
  "js s = map (\<lambda>c. of_nat (of_char c)) s"

text \<open>
  \<open>String.prototype.trim\<close> removes the code units of WhiteSpace and LineTerminator
  (ECMAScript): TAB, VT, FF, SP, NBSP, ZWNBSP, the Unicode space separators, LF, CR, LS, PS.
\<close>

definition is_ws :: "jchar \<Rightarrow> bool" where
  "is_ws c = (c \<in> {0x9, 0xA, 0xB, 0xC, 0xD, 0x20, 0xA0, 0x1680, 0x2028, 0x2029,
                     0x202F, 0x205F, 0x3000, 0xFEFF}
              \<or> (0x2000 \<le> c \<and> c \<le> 0x200A))"

definition trim :: "jstring \<Rightarrow> jstring" where
  "trim s = rev (dropWhile is_ws (rev (dropWhile is_ws s)))"

text \<open>The decimal numeral of a non-negative integer, as a template literal prints it.\<close>

fun digits :: "nat \<Rightarrow> jstring" where
  "digits n = (if n < 10 then [of_nat (48 + n)]
               else digits (n div 10) @ [of_nat (48 + n mod 10)])"

text \<open>
  JSON values. Numbers are IEEE doubles on which the program never computes, so their type
  is left uninterpreted. An object is the association list of its own properties.
  A body on the wire is represented by the JSON value it encodes: \<open>JSON.stringify\<close> on
  the sending side and \<open>.json()\<close> on the receiving side are inverse on these values.
\<close>

typedecl js_number

datatype json =
    JNull
  | JBool bool
  | JNum js_number
  | JStr jstring
  | JArr "json list"
  | JObj "(jstring \<times> json) list"

text \<open>A run-time value read out of a parsed body: a JSON value, or \<open>undefined\<close>.\<close>

datatype js_value = Undefined | Json json

text \<open>
  A thrown value: whether it is an instance of \<open>Error\<close>, its \<open>name\<close> and its
  \<open>message\<close>. An awaited promise either returns or throws.
\<close>

record thrown =
  instanceof_Error :: bool
  err_name :: jstring
  err_message :: jstring

datatype 'a attempt = Returned 'a | Threw thrown

record abort_signal =
  aborted :: bool

record http_request =
  url :: jstring
  http_method :: jstring
  headers :: "(jstring \<times> jstring) list"
  body :: json
  signal :: "abort_signal option"

text \<open>
  What \<open>fetch\<close> resolves to: the status line is in, the body is still to be read and
  parsed by \<open>.json()\<close>, which may throw.
\<close>

record fetch_response =
  status :: nat
  json_body :: "json attempt"

definition ok :: "fetch_response \<Rightarrow> bool" where
  "ok res = (200 \<le> status res \<and> status res \<le> 299)"


section \<open>The page: conversation state and its transitions\<close>

datatype MessageRole = User | Agent

record message =
  msg_id :: jstring
  role :: MessageRole
  content :: js_value
  timestamp :: nat

definition AGENT_URL_page :: jstring where
  "AGENT_URL_page = js ''http://127.0.0.1:8001/chat''"

text \<open>
  \<open>WELCOME\<close> is built once, when the module is loaded; \<open>t0\<close> is the clock at that
  moment. The code unit \<open>0x2014\<close> is the dash of the source text.
\<close>

definition WELCOME :: "nat \<Rightarrow> message" where
  "WELCOME t0 =
     \<lparr> msg_id = js ''welcome'',
       role = Agent,
       content = Json (JStr (
         js ''Hi! I'' @ [0x27] @ js ''m your **AI Real Estate Analyst**. I can help you explore the California Housing dataset ''
         @ [0x2014]
         @ js '' find specific properties, compare prices, or generate charts.\<newline>\<newline>Try one of the suggestions below, or ask me anything!'')),
       timestamp = t0 \<rparr>"

record page_state =
  messages :: "message list"
  input :: jstring
  isLoading :: bool
  showWelcome :: bool
  abortRef :: "abort_signal option"

definition initial_state :: "nat \<Rightarrow> page_state" where
  "initial_state t0 =
     \<lparr> messages = [WELCOME t0], input = [], isLoading = False, showWelcome = True,
       abortRef = None \<rparr>"

definition handleInputChange :: "jstring \<Rightarrow> page_state \<Rightarrow> page_state" where
  "handleInputChange v st = st\<lparr>input := v\<rparr>"

text \<open>
  \<open>sendMessage\<close> up to its first \<open>await\<close>: the guard, the optimistic update and the
  request handed to \<open>fetch\<close>. \<open>uuid\<close> and \<open>now\<close> are what \<open>crypto.randomUUID()\<close>
  and \<open>new Date()\<close> return. The result is the new state and the request issued, if any.
\<close>

definition sendMessage :: "jstring \<Rightarrow> jstring \<Rightarrow> nat \<Rightarrow> page_state \<Rightarrow> page_state \<times> http_request option" where
  "sendMessage text uuid now st =
     (let trimmed = trim text in
      if trimmed = [] \<or> isLoading st then (st, None)
      else
        let userMsg = \<lparr> msg_id = uuid, role = User, content = Json (JStr trimmed),
                        timestamp = now \<rparr>;
            ctrl = \<lparr> aborted = False \<rparr>
        in (st\<lparr> showWelcome := False, input := [],
                messages := messages st @ [userMsg],
                isLoading := True,
                abortRef := Some ctrl \<rparr>,
            Some \<lparr> url = AGENT_URL_page,
                   http_method = js ''POST'',
                   headers = [(js ''Content-Type'', js ''application/json'')],
                   body = JObj [(js ''message'', JStr trimmed)],
                   signal = Some ctrl \<rparr>))"

text \<open>
  \<open>data.response\<close>: reading a property of \<open>null\<close> throws a TypeError; an object
  yields the property or \<open>undefined\<close>; every other JSON value has no such property.
\<close>

definition get_response :: "json \<Rightarrow> js_value attempt" where
  "get_response data =
     (case data of
        JNull \<Rightarrow> Threw \<lparr> instanceof_Error = True, err_name = js ''TypeError'',
                         err_message = js ''Cannot read properties of null (reading '' @ [0x27]
                                       @ js ''response'' @ [0x27] @ js '')'' \<rparr>
      | JObj kvs \<Rightarrow> Returned (case map_of kvs (js ''response'') of
                                None \<Rightarrow> Undefined | Some v \<Rightarrow> Json v)
      | _ \<Rightarrow> Returned Undefined)"

definition errorMsg :: "jstring \<Rightarrow> nat \<Rightarrow> message" where
  "errorMsg uuid now =
     \<lparr> msg_id = uuid, role = Agent,
       content = Json (JStr (js ''Error: Could not reach the agent. Make sure chatbot_agent.py is running on port 8001.'')),
       timestamp = now \<rparr>"

text \<open>
  The \<open>try\<close> block of \<open>sendMessage\<close> after \<open>fetch\<close> has settled with \<open>outcome\<close>:
  it returns the agent message to append, or throws.
\<close>

definition sendMessage_try :: "fetch_response attempt \<Rightarrow> jstring \<Rightarrow> nat \<Rightarrow> message attempt" where
  "sendMessage_try outcome uuid now =
     (case outcome of
        Threw err \<Rightarrow> Threw err
      | Returned res \<Rightarrow>
          if \<not> ok res
          then Threw \<lparr> instanceof_Error = True, err_name = js ''Error'',
                       err_message = js ''Server error: '' @ digits (status res) \<rparr>
          else (case json_body res of
                  Threw err \<Rightarrow> Threw err
                | Returned data \<Rightarrow>
                    (case get_response data of
                       Threw err \<Rightarrow> Threw err
                     | Returned raw \<Rightarrow>
                         Returned \<lparr> msg_id = uuid, role = Agent, content = raw,
                                    timestamp = now \<rparr>)))"

text \<open>The rest of \<open>sendMessage\<close>: the \<open>try\<close> block, then \<open>catch\<close>, then \<open>finally\<close>.\<close>

definition sendMessage_resume :: "fetch_response attempt \<Rightarrow> jstring \<Rightarrow> nat \<Rightarrow> page_state \<Rightarrow> page_state" where
  "sendMessage_resume outcome uuid now st =
     (let st' =
        (case sendMessage_try outcome uuid now of
           Returned agentMsg \<Rightarrow> st\<lparr>messages := messages st @ [agentMsg]\<rparr>
         | Threw err \<Rightarrow>
             if instanceof_Error err \<and> err_name err = js ''AbortError'' then st
             else st\<lparr>messages := messages st @ [errorMsg uuid now]\<rparr>)
      in st'\<lparr>isLoading := False\<rparr>)"

definition clearChat :: "nat \<Rightarrow> page_state \<Rightarrow> page_state" where
  "clearChat t0 st = st\<lparr>messages := [WELCOME t0], showWelcome := True\<rparr>"

text \<open>
  The browser around the page: the page state together with the requests handed to
  \<open>fetch\<close> that have not settled yet. Each event handler and each continuation runs to
  its next \<open>await\<close> on the state of the latest render.
\<close>

record browser =
  page :: page_state
  in_flight :: "http_request list"

datatype event =
    Send jstring jstring nat
  | Settle "fetch_response attempt" jstring nat
  | Clear
  | Type jstring

fun step :: "nat \<Rightarrow> event \<Rightarrow> browser \<Rightarrow> browser option" where
  "step t0 (Send text uuid now) b =
     (case sendMessage text uuid now (page b) of
        (p, None) \<Rightarrow> Some (b\<lparr>page := p\<rparr>)
      | (p, Some rq) \<Rightarrow> Some \<lparr>page = p, in_flight = in_flight b @ [rq]\<rparr>)"
| "step t0 (Settle outcome uuid now) b =
     (case in_flight b of
        [] \<Rightarrow> None
      | rq # rest \<Rightarrow>
          Some \<lparr>page = sendMessage_resume outcome uuid now (page b), in_flight = rest\<rparr>)"
| "step t0 Clear b = Some (b\<lparr>page := clearChat t0 (page b)\<rparr>)"
| "step t0 (Type v) b = Some (b\<lparr>page := handleInputChange v (page b)\<rparr>)"

inductive reachable :: "nat \<Rightarrow> browser \<Rightarrow> bool" for t0 :: nat where
  start: "reachable t0 \<lparr>page = initial_state t0, in_flight = []\<rparr>"
| next_step: "reachable t0 b \<Longrightarrow> step t0 e b = Some b' \<Longrightarrow> reachable t0 b'"


section \<open>The proxy route\<close>

definition AGENT_URL_route :: jstring where
  "AGENT_URL_route = js ''http://127.0.0.1:8001/chat''"

record next_response =
  resp_status :: nat
  resp_body :: json

text \<open>\<open>NextResponse.json(body, { status })\<close>; the status is 200 when none is given.\<close>

definition NextResponse_json :: "json \<Rightarrow> nat option \<Rightarrow> next_response" where
  "NextResponse_json b st =
     \<lparr> resp_status = (case st of None \<Rightarrow> 200 | Some n \<Rightarrow> n), resp_body = b \<rparr>"

text \<open>
  One run of the handler: the response it returns, the request it handed to \<open>fetch\<close>
  (if it got that far) and what it wrote to the console.
\<close>

record proxy_run =
  reply :: next_response
  forwarded :: "http_request option"
  logged :: "(jstring \<times> jstring) option"

definition fallback_text :: jstring where
  "fallback_text =
     js ''Cannot reach the agent backend. Make sure chatbot_agent.py is running on port 8001.''"

text \<open>The \<open>catch\<close> block of the handler.\<close>

definition POST_catch :: "thrown \<Rightarrow> http_request option \<Rightarrow> proxy_run" where
  "POST_catch err sent =
     (let message = (if instanceof_Error err then err_message err else js ''Unknown error'')
      in \<lparr> reply = NextResponse_json (JObj [(js ''response'', JStr fallback_text)]) (Some 502),
           forwarded = sent,
           logged = Some (js ''[/api/chat proxy error]'', message) \<rparr>)"

text \<open>
  The handler. \<open>req_json\<close> is the outcome of \<open>req.json()\<close> on the incoming request
  (the parsed body, or the exception of a body that is not JSON); \<open>fetch\<close> is the
  network: what the upstream answers to the forwarded request.
\<close>

definition POST :: "json attempt \<Rightarrow> (http_request \<Rightarrow> fetch_response attempt) \<Rightarrow> proxy_run" where
  "POST req_json fetch =
     (case req_json of
        Threw err \<Rightarrow> POST_catch err None
      | Returned b \<Rightarrow>
          let rq = \<lparr> url = AGENT_URL_route,
                      http_method = js ''POST'',
                      headers = [(js ''Content-Type'', js ''application/json'')],
                      body = b,
                      signal = None \<rparr>
          in (case fetch rq of
                Threw err \<Rightarrow> POST_catch err (Some rq)
              | Returned response \<Rightarrow>
                  if \<not> ok response
                  then \<lparr> reply = NextResponse_json
                                   (JObj [(js ''error'',
                                           JStr (js ''Agent returned '' @ digits (status response)))])
                                   (Some (status response)),
                         forwarded = Some rq,
                         logged = None \<rparr>
                  else (case json_body response of
                          Threw err \<Rightarrow> POST_catch err (Some rq)
                        | Returned data \<Rightarrow>
                            \<lparr> reply = NextResponse_json data None,
                              forwarded = Some rq,
                              logged = None \<rparr>)))"


section \<open>Rendering a message\<close>


definition newline :: jchar where
  "newline = 0x0A"






















text \<open>
  The single-flight invariant of the browser: at most one request has not settled, and
  the page shows the loading state exactly while one is outstanding.
\<close>

definition single_flight :: "browser \<Rightarrow> bool" where
  "single_flight b =
     (length (in_flight b) \<le> 1 \<and> (isLoading (page b) \<longleftrightarrow> in_flight b \<noteq> []))"


section \<open>Facts about the page\<close>

lemma sendMessage_ignored:
  "isLoading st \<or> trim msg = [] \<Longrightarrow> sendMessage msg uuid now st = (st, None)"
  by (auto simp: sendMessage_def Let_def)

lemma sendMessage_accepted:
  "\<not> isLoading st \<Longrightarrow> trim msg \<noteq> [] \<Longrightarrow>
   sendMessage msg uuid now st =
     (st\<lparr> showWelcome := False, input := [],
          messages := messages st @ [\<lparr> msg_id = uuid, role = User,
                                      content = Json (JStr (trim msg)), timestamp = now \<rparr>],
          isLoading := True,
          abortRef := Some \<lparr> aborted = False \<rparr> \<rparr>,
      Some \<lparr> url = AGENT_URL_page,
             http_method = js ''POST'',
             headers = [(js ''Content-Type'', js ''application/json'')],
             body = JObj [(js ''message'', JStr (trim msg))],
             signal = Some \<lparr> aborted = False \<rparr> \<rparr>)"
  by (simp add: sendMessage_def Let_def)

lemma isLoading_resume [simp]: "isLoading (sendMessage_resume outcome uuid now st) = False"
  by (simp add: sendMessage_resume_def Let_def)

lemma trim_hi: "trim (js ''hi'') = js ''hi''"
  by code_simp

lemma trim_blank: "trim (js ''  '') = []"
  by code_simp

lemma step_single_flight:
  assumes "single_flight b" and "step t0 e b = Some b'"
  shows "single_flight b'"
proof (cases e)
  case (Send msg uuid now)
  show ?thesis
  proof (cases "isLoading (page b) \<or> trim msg = []")
    case True
    then have "sendMessage msg uuid now (page b) = (page b, None)"
      by (rule sendMessage_ignored)
    with assms Send show ?thesis by (simp add: single_flight_def)
  next
    case False
    then have idle: "\<not> isLoading (page b)" and nonempty: "trim msg \<noteq> []" by simp_all
    from sendMessage_accepted [OF idle nonempty, of uuid now] idle assms Send show ?thesis
      by (auto simp: single_flight_def)
  qed
next
  case (Settle outcome uuid now)
  with assms show ?thesis
    by (auto simp: single_flight_def split: list.splits)
next
  case Clear
  with assms show ?thesis by (auto simp: single_flight_def clearChat_def)
next
  case (Type v)
  with assms show ?thesis by (auto simp: single_flight_def handleInputChange_def)
qed

lemma reachable_single_flight: "reachable t0 b \<Longrightarrow> single_flight b"
proof (induction rule: reachable.induct)
  case start
  show ?case by (simp add: single_flight_def initial_state_def)
next
  case (next_step b e b')
  then show ?case by (blast intro: step_single_flight)
qed


section \<open>Facts about the proxy route\<close>

lemma POST_forwarding:
  "POST (Returned b) fetch =
     (case fetch \<lparr> url = AGENT_URL_route, http_method = js ''POST'',
                    headers = [(js ''Content-Type'', js ''application/json'')],
                    body = b, signal = None \<rparr> of
        Threw err \<Rightarrow>
          POST_catch err (Some \<lparr> url = AGENT_URL_route, http_method = js ''POST'',
                                  headers = [(js ''Content-Type'', js ''application/json'')],
                                  body = b, signal = None \<rparr>)
      | Returned response \<Rightarrow>
          if \<not> ok response
          then \<lparr> reply = NextResponse_json
                           (JObj [(js ''error'',
                                   JStr (js ''Agent returned '' @ digits (status response)))])
                           (Some (status response)),
                 forwarded = Some \<lparr> url = AGENT_URL_route, http_method = js ''POST'',
                                     headers = [(js ''Content-Type'', js ''application/json'')],
                                     body = b, signal = None \<rparr>,
                 logged = None \<rparr>
          else (case json_body response of
                  Threw err \<Rightarrow>
                    POST_catch err (Some \<lparr> url = AGENT_URL_route, http_method = js ''POST'',
                                            headers = [(js ''Content-Type'', js ''application/json'')],
                                            body = b, signal = None \<rparr>)
                | Returned data \<Rightarrow>
                    \<lparr> reply = NextResponse_json data None,
                      forwarded = Some \<lparr> url = AGENT_URL_route, http_method = js ''POST'',
                                          headers = [(js ''Content-Type'', js ''application/json'')],
                                          body = b, signal = None \<rparr>,
                      logged = None \<rparr>))"
  by (simp add: POST_def Let_def)

lemma reply_POST_catch:
  "reply (POST_catch err sent) =
     \<lparr> resp_status = 502, resp_body = JObj [(js ''response'', JStr fallback_text)] \<rparr>"
  by (simp add: POST_catch_def NextResponse_json_def Let_def)



section \<open>Facts about rendering\<close>
















section \<open>Where the page sends a message\<close>

text \<open>
  C1, as stated, fails: the request that \<open>sendMessage\<close> issues for the text \<open>hi\<close> in
  the initial state goes to the address of the upstream agent, not to \<open>/api/chat\<close>.
\<close>

theorem send_bypasses_proxy_counterexample:
  "map_option url (snd (sendMessage (js ''hi'') (js ''id-1'') 1 (initial_state 0)))
     = Some (js ''http://127.0.0.1:8001/chat'')
   \<and> map_option url (snd (sendMessage (js ''hi'') (js ''id-1'') 1 (initial_state 0)))
     \<noteq> Some (js ''/api/chat'')"
  by (simp add: sendMessage_def Let_def trim_hi initial_state_def AGENT_URL_page_def)
     (simp add: js_def)

text \<open>
  C1, amended. For every message that passes the send guard (not empty after trimming,
  no request in flight), the page issues one HTTP request: a POST with JSON content type
  and body \<open>{ message: trimmed }\<close>, carrying a fresh abort signal, sent directly to
  \<open>http://127.0.0.1:8001/chat\<close>. That is the address the proxy route forwards to, and
  it is not the proxy endpoint \<open>/api/chat\<close>.
\<close>

theorem send_targets_agent_endpoint:
  "\<not> isLoading st \<and> trim msg \<noteq> [] \<longrightarrow>
     snd (sendMessage msg uuid now st) =
       Some \<lparr> url = js ''http://127.0.0.1:8001/chat'',
              http_method = js ''POST'',
              headers = [(js ''Content-Type'', js ''application/json'')],
              body = JObj [(js ''message'', JStr (trim msg))],
              signal = Some \<lparr> aborted = False \<rparr> \<rparr>
     \<and> map_option url (snd (sendMessage msg uuid now st)) = Some AGENT_URL_route
     \<and> map_option url (snd (sendMessage msg uuid now st)) \<noteq> Some (js ''/api/chat'')"
proof
  assume a: "\<not> isLoading st \<and> trim msg \<noteq> []"
  have ne: "js ''http://127.0.0.1:8001/chat'' \<noteq> js ''/api/chat''"
    by (simp add: js_def)
  from a have "\<not> isLoading st" and "trim msg \<noteq> []" by simp_all
  from sendMessage_accepted [OF this, of uuid now] ne
  show "snd (sendMessage msg uuid now st) =
       Some \<lparr> url = js ''http://127.0.0.1:8001/chat'',
              http_method = js ''POST'',
              headers = [(js ''Content-Type'', js ''application/json'')],
              body = JObj [(js ''message'', JStr (trim msg))],
              signal = Some \<lparr> aborted = False \<rparr> \<rparr>
     \<and> map_option url (snd (sendMessage msg uuid now st)) = Some AGENT_URL_route
     \<and> map_option url (snd (sendMessage msg uuid now st)) \<noteq> Some (js ''/api/chat'')"
    by (simp add: AGENT_URL_page_def AGENT_URL_route_def)
qed

theorem send_targets_agent_endpoint_witness:
  "\<not> isLoading (initial_state 0) \<and> trim (js ''hi'') \<noteq> []
   \<and> snd (sendMessage (js ''hi'') (js ''id-1'') 1 (initial_state 0)) =
       Some \<lparr> url = js ''http://127.0.0.1:8001/chat'',
              http_method = js ''POST'',
              headers = [(js ''Content-Type'', js ''application/json'')],
              body = JObj [(js ''message'', JStr (js ''hi''))],
              signal = Some \<lparr> aborted = False \<rparr> \<rparr>"
proof -
  have i: "\<not> isLoading (initial_state 0)" by (simp add: initial_state_def)
  have t: "trim (js ''hi'') \<noteq> []" by (simp add: trim_hi) (simp add: js_def)
  show ?thesis
    using i t send_targets_agent_endpoint [of "initial_state 0" "js ''hi''" "js ''id-1''" 1]
    by (simp add: trim_hi)
qed


section \<open>Which messages render as a chart\<close>





section \<open>Formatted text\<close>





section \<open>The send guard and single flight\<close>

text \<open>
  C4. In every conversation state in which a request is in flight (\<open>isLoading\<close>) or
  the input is empty after trimming, \<open>sendMessage\<close> is a no-op: it returns the state as
  it was, the message list included, and issues no request. Hence, in every state the
  browser can reach from the initial one by sends, settled requests, resets and typing,
  at most one request is outstanding.
\<close>

theorem send_guard_single_flight:
  "(isLoading st \<or> trim msg = [] \<longrightarrow> sendMessage msg uuid now st = (st, None))
   \<and> (reachable t0 b \<longrightarrow> length (in_flight b) \<le> 1)"
  using sendMessage_ignored [of st msg uuid now] reachable_single_flight [of t0 b]
  by (simp add: single_flight_def)

theorem send_guard_single_flight_witness:
  "isLoading (fst (sendMessage (js ''hi'') (js ''id-1'') 1 (initial_state 0)))
   \<and> sendMessage (js ''again'') (js ''id-2'') 2
        (fst (sendMessage (js ''hi'') (js ''id-1'') 1 (initial_state 0)))
       = (fst (sendMessage (js ''hi'') (js ''id-1'') 1 (initial_state 0)), None)
   \<and> trim (js ''  '') = []
   \<and> sendMessage (js ''  '') (js ''id-1'') 1 (initial_state 0) = (initial_state 0, None)
   \<and> reachable 0 \<lparr>page = fst (sendMessage (js ''hi'') (js ''id-1'') 1 (initial_state 0)),
                    in_flight = [the (snd (sendMessage (js ''hi'') (js ''id-1'') 1 (initial_state 0)))]\<rparr>
   \<and> length (in_flight
        \<lparr>page = fst (sendMessage (js ''hi'') (js ''id-1'') 1 (initial_state 0)),
         in_flight = [the (snd (sendMessage (js ''hi'') (js ''id-1'') 1 (initial_state 0)))]\<rparr>) \<le> 1"
proof -
  have t: "trim (js ''hi'') \<noteq> []" by (simp add: trim_hi) (simp add: js_def)
  have i: "\<not> isLoading (initial_state 0)" by (simp add: initial_state_def)
  note acc = sendMessage_accepted [OF i t, of "js ''id-1''" 1]
  have l: "isLoading (fst (sendMessage (js ''hi'') (js ''id-1'') 1 (initial_state 0)))"
    using acc by simp
  have "step 0 (Send (js ''hi'') (js ''id-1'') 1) \<lparr>page = initial_state 0, in_flight = []\<rparr>
        = Some \<lparr>page = fst (sendMessage (js ''hi'') (js ''id-1'') 1 (initial_state 0)),
                in_flight = [the (snd (sendMessage (js ''hi'') (js ''id-1'') 1 (initial_state 0)))]\<rparr>"
    using acc by simp
  with reachable.start [of 0]
  have r: "reachable 0 \<lparr>page = fst (sendMessage (js ''hi'') (js ''id-1'') 1 (initial_state 0)),
                in_flight = [the (snd (sendMessage (js ''hi'') (js ''id-1'') 1 (initial_state 0)))]\<rparr>"
    by (rule reachable.next_step)
  show ?thesis
    using l trim_blank r
      send_guard_single_flight
        [of "fst (sendMessage (js ''hi'') (js ''id-1'') 1 (initial_state 0))"
            "js ''again''" "js ''id-2''" 2 0
            "\<lparr>page = fst (sendMessage (js ''hi'') (js ''id-1'') 1 (initial_state 0)),
              in_flight = [the (snd (sendMessage (js ''hi'') (js ''id-1'') 1 (initial_state 0)))]\<rparr>"]
      send_guard_single_flight
        [of "initial_state 0" "js ''  ''" "js ''id-1''" 1 0
            "\<lparr>page = initial_state 0, in_flight = []\<rparr>"]
    by simp
qed


section \<open>Cancellation\<close>

text \<open>
  C5. When the request in flight ends by cancellation, that is when \<open>fetch\<close>, or
  the reading of the body of an accepted response, throws an \<open>Error\<close> named
  \<open>AbortError\<close>, the message list is left as it was: neither an agent message nor an
  error message is appended. The loading state is cleared.
\<close>

theorem cancelled_request_appends_nothing:
  "instanceof_Error err \<and> err_name err = js ''AbortError''
   \<and> (outcome = Threw err
      \<or> (\<exists>res. outcome = Returned res \<and> ok res \<and> json_body res = Threw err))
   \<longrightarrow> messages (sendMessage_resume outcome uuid now st) = messages st
       \<and> isLoading (sendMessage_resume outcome uuid now st) = False"
  by (auto simp: sendMessage_resume_def sendMessage_try_def Let_def)

theorem cancelled_request_appends_nothing_witness:
  "messages (sendMessage_resume
       (Threw \<lparr> instanceof_Error = True, err_name = js ''AbortError'',
                err_message = js ''The user aborted a request.'' \<rparr>)
       (js ''id-2'') 2
       (fst (sendMessage (js ''hi'') (js ''id-1'') 1 (initial_state 0))))
   = messages (fst (sendMessage (js ''hi'') (js ''id-1'') 1 (initial_state 0)))
   \<and> messages (fst (sendMessage (js ''hi'') (js ''id-1'') 1 (initial_state 0)))
   = [WELCOME 0, \<lparr> msg_id = js ''id-1'', role = User, content = Json (JStr (js ''hi'')),
                    timestamp = 1 \<rparr>]"
  using cancelled_request_appends_nothing
    [of "\<lparr> instanceof_Error = True, err_name = js ''AbortError'',
           err_message = js ''The user aborted a request.'' \<rparr>"
        "Threw \<lparr> instanceof_Error = True, err_name = js ''AbortError'',
                 err_message = js ''The user aborted a request.'' \<rparr>"
        "js ''id-2''" 2 "fst (sendMessage (js ''hi'') (js ''id-1'') 1 (initial_state 0))"]
  by (simp add: sendMessage_def Let_def trim_hi initial_state_def) (simp add: js_def)


section \<open>The proxy: pass-through, upstream errors and the fallback\<close>





text \<open>
  C8. For every request body, when the upstream cannot be reached, that is when
  \<open>fetch\<close> throws (network failure, timeout of the transport, malformed response) or
  the body of an accepted response does not parse, the proxy returns status 502 with the
  fixed object \<open>{ response: ... }\<close> whose text tells the operator to make sure the
  backend is running on port 8001. Neither the body nor the exception enters the reply.
\<close>

theorem proxy_fallback_when_unreachable:
  "fetch \<lparr> url = js ''http://127.0.0.1:8001/chat'', http_method = js ''POST'',
           headers = [(js ''Content-Type'', js ''application/json'')],
           body = b, signal = None \<rparr> = Threw err
   \<or> (\<exists>res. fetch \<lparr> url = js ''http://127.0.0.1:8001/chat'', http_method = js ''POST'',
           headers = [(js ''Content-Type'', js ''application/json'')],
           body = b, signal = None \<rparr> = Returned res
          \<and> ok res \<and> json_body res = Threw err)
   \<Longrightarrow> reply (POST (Returned b) fetch) =
         \<lparr> resp_status = 502,
           resp_body = JObj [(js ''response'',
             JStr (js ''Cannot reach the agent backend. Make sure chatbot_agent.py is running on port 8001.''))] \<rparr>"
  by (auto simp: POST_forwarding AGENT_URL_route_def reply_POST_catch fallback_text_def)

theorem proxy_fallback_when_unreachable_witness:
  "reply (POST (Returned (JObj [(js ''message'', JStr (js ''hi''))]))
       (\<lambda>rq. Threw \<lparr> instanceof_Error = True, err_name = js ''TypeError'',
                       err_message = js ''fetch failed'' \<rparr>))
     = \<lparr> resp_status = 502,
         resp_body = JObj [(js ''response'',
           JStr (js ''Cannot reach the agent backend. Make sure chatbot_agent.py is running on port 8001.''))] \<rparr>"
  using proxy_fallback_when_unreachable
    [of "\<lambda>rq. Threw \<lparr> instanceof_Error = True, err_name = js ''TypeError'',
                       err_message = js ''fetch failed'' \<rparr>"
        "JObj [(js ''message'', JStr (js ''hi''))]"
        "\<lparr> instanceof_Error = True, err_name = js ''TypeError'',
                       err_message = js ''fetch failed'' \<rparr>"]
  by simp


section \<open>Reset\<close>

text \<open>
  C9. Whatever the conversation holds, \<open>clearChat\<close> leaves a message list of exactly
  one message, the fixed welcome message, and sets the first-visit flag \<open>showWelcome\<close>
  back to the value it has in the initial state.
\<close>

theorem clearChat_resets:
  "messages (clearChat t0 st) = [WELCOME t0]
   \<and> length (messages (clearChat t0 st)) = 1
   \<and> showWelcome (clearChat t0 st) = showWelcome (initial_state t0)
   \<and> messages (clearChat t0 st) = messages (initial_state t0)"
  by (simp add: clearChat_def initial_state_def)


section \<open>A request body that is not JSON\<close>

text \<open>
  C10. When the body of the incoming request is not valid JSON, \<open>req.json()\<close> throws
  inside the \<open>try\<close> block: the proxy returns the 502 fallback, nothing is forwarded
  to the upstream, and the reply is equal to the one given for any body when \<open>fetch\<close>
  fails.
\<close>

theorem proxy_fallback_on_unparsable_request:
  "reply (POST (Threw err) fetch) =
     \<lparr> resp_status = 502,
       resp_body = JObj [(js ''response'',
         JStr (js ''Cannot reach the agent backend. Make sure chatbot_agent.py is running on port 8001.''))] \<rparr>
   \<and> forwarded (POST (Threw err) fetch) = None
   \<and> reply (POST (Threw err) fetch) = reply (POST (Returned b) (\<lambda>rq. Threw err'))"
  by (simp add: POST_def POST_catch_def Let_def NextResponse_json_def fallback_text_def)

end
